theory Spec2Isabelle
  imports Complex_Main "HOL-Library.Log_Nat"
begin

section \<open>Python numbers\<close>

text \<open>
  A Python number is an int, which is unbounded and exact, or a float, which is an IEEE 754
  binary64 value: a finite double, an infinity or NaN. A finite double is kept as the
  rational it denotes. The two zeros are not told apart; they are equal, both false, and
  differ only in how they print.
\<close>

datatype pyfloat = Finite rat | PosInf | NegInf | NaN

datatype pynum = PInt int | PFloat pyfloat

text \<open>Rounding of a non-negative rational to the nearest integer, a tie going to the even one.\<close>

definition round_half_even :: "rat \<Rightarrow> int" where
  "round_half_even y =
     (let f = \<lfloor>y\<rfloor>; d = y - of_int f
      in if d < 1 / 2 then f
         else if d > 1 / 2 then f + 1
         else if even f then f else f + 1)"

text \<open>
  The binary exponent of a positive rational \<open>a\<close>, the \<open>e\<close> with
  \<open>2 ^ e \<le> a < 2 ^ (e + 1)\<close>, computed from the bit lengths of numerator and
  denominator.
\<close>

definition float_exponent :: "rat \<Rightarrow> int" where
  "float_exponent a =
     (let (p, q) = quotient_of a;
          e0 = bitlen p - bitlen q
      in if 2 powi e0 \<le> a then e0 else e0 - 1)"

text \<open>
  The float nearest to a real number, as every float operation and every float literal
  rounds: 53 significant bits, a tie going to the even significand, steps of
  \<open>2 ^ - 1074\<close> below the normal range, and an infinity once the rounded magnitude
  is beyond the largest double, \<open>(2 ^ 53 - 1) * 2 ^ 971\<close>. Here \<open>m\<close> is the
  rounded significand, an integer of at most 53 bits or \<open>2 ^ 53\<close> itself, and
  \<open>2 ^ k\<close> is the spacing of the doubles around the number.
\<close>

definition py_float :: "rat \<Rightarrow> pyfloat" where
  "py_float x =
     (if x = 0 then Finite 0
      else
        let a = \<bar>x\<bar>;
            k = max (float_exponent a) (- 1022) - 52;
            m = round_half_even (a / 2 powi k)
        in if k > 971 \<or> (k = 971 \<and> m > 2 ^ 53 - 1)
           then (if x > 0 then PosInf else NegInf)
           else Finite (if x > 0 then of_int m * 2 powi k else - (of_int m * 2 powi k)))"

fun float_sign :: "pyfloat \<Rightarrow> int" where
  "float_sign (Finite x) = (if x > 0 then 1 else if x < 0 then - 1 else 0)"
| "float_sign PosInf = 1"
| "float_sign NegInf = - 1"
| "float_sign NaN = 0"

text \<open>
  Float multiplication and addition: NaN is contagious, an infinity times zero and the sum
  of the two infinities are NaN, any other product or sum with an infinity is the infinity
  of the right sign, and two finite operands give the rounded exact result.
\<close>

fun float_mul :: "pyfloat \<Rightarrow> pyfloat \<Rightarrow> pyfloat" where
  "float_mul NaN b = NaN"
| "float_mul a NaN = NaN"
| "float_mul (Finite x) (Finite y) = py_float (x * y)"
| "float_mul a b =
     (if float_sign a * float_sign b = 0 then NaN
      else if float_sign a * float_sign b > 0 then PosInf else NegInf)"

fun float_add :: "pyfloat \<Rightarrow> pyfloat \<Rightarrow> pyfloat" where
  "float_add NaN b = NaN"
| "float_add a NaN = NaN"
| "float_add (Finite x) (Finite y) = py_float (x + y)"
| "float_add PosInf NegInf = NaN"
| "float_add NegInf PosInf = NaN"
| "float_add PosInf b = PosInf"
| "float_add a PosInf = PosInf"
| "float_add NegInf b = NegInf"
| "float_add a NegInf = NegInf"

text \<open>
  \<^verbatim>\<open>x * n\<close> and \<^verbatim>\<open>i + x\<close> for a number \<open>x\<close> and an int that is a small literal of
  the program (0, 30 or 50 below): with an int \<open>x\<close> the result is the exact int; with a
  float \<open>x\<close> the int is converted to the float of the same value, which these literals
  have, and the float operation rounds.
\<close>

fun num_mul_int :: "pynum \<Rightarrow> int \<Rightarrow> pynum" where
  "num_mul_int (PInt i) n = PInt (i * n)"
| "num_mul_int (PFloat f) n = PFloat (float_mul f (Finite (of_int n)))"

fun int_add_num :: "int \<Rightarrow> pynum \<Rightarrow> pynum" where
  "int_add_num i (PInt j) = PInt (i + j)"
| "int_add_num i (PFloat f) = PFloat (float_add (Finite (of_int i)) f)"

text \<open>
  \<^verbatim>\<open>x >= n\<close> and \<^verbatim>\<open>x <= n\<close> for a number \<open>x\<close> and an int \<open>n\<close>. Python compares
  an int with a float by value; every comparison with NaN is false.
\<close>

fun num_ge :: "pynum \<Rightarrow> int \<Rightarrow> bool" where
  "num_ge (PInt i) n = (i \<ge> n)"
| "num_ge (PFloat (Finite r)) n = (r \<ge> of_int n)"
| "num_ge (PFloat PosInf) n = True"
| "num_ge (PFloat NegInf) n = False"
| "num_ge (PFloat NaN) n = False"

fun num_le :: "pynum \<Rightarrow> int \<Rightarrow> bool" where
  "num_le (PInt i) n = (i \<le> n)"
| "num_le (PFloat (Finite r)) n = (r \<le> of_int n)"
| "num_le (PFloat PosInf) n = False"
| "num_le (PFloat NegInf) n = True"
| "num_le (PFloat NaN) n = False"


section \<open>Python values\<close>

text \<open>
  Every handler of the repository is an AWS Lambda entry point: it receives the decoded
  JSON event as a Python dict and reads it with \<^verbatim>\<open>dict.get\<close>. A decoded JSON value is
  \<^verbatim>\<open>None\<close>, a bool, a number, a str, a list or a dict with str keys. A JSON number
  without fraction or exponent is decoded to an int and any other to a float;
  \<open>JInt\<close> and \<open>JNum\<close> write the int and the finite float. A dict is an association
  list that is read from the front.
\<close>

datatype json =
    JNull
  | JBool bool
  | JNumber pynum
  | JStr string
  | JArr "json list"
  | JObj "(string \<times> json) list"

abbreviation JInt :: "int \<Rightarrow> json" where
  "JInt i \<equiv> JNumber (PInt i)"

abbreviation JNum :: "rat \<Rightarrow> json" where
  "JNum r \<equiv> JNumber (PFloat (Finite r))"

type_synonym pydict = "(string \<times> json) list"

text \<open>
  The exceptions the handlers can raise. \<open>ClientError\<close> stands for whatever a call of
  the remote browser backend raises.
\<close>

datatype py_error = AttributeError | TypeError | KeyError | ClientError

text \<open>
  Python's truth value of a decoded JSON value, as \<^verbatim>\<open>not x\<close> tests it. A number is
  false when it is zero; the infinities and NaN are true.
\<close>

fun truthy :: "json \<Rightarrow> bool" where
  "truthy JNull = False"
| "truthy (JBool b) = b"
| "truthy (JNumber (PInt i)) = (i \<noteq> 0)"
| "truthy (JNumber (PFloat (Finite r))) = (r \<noteq> 0)"
| "truthy (JNumber (PFloat PosInf)) = True"
| "truthy (JNumber (PFloat NegInf)) = True"
| "truthy (JNumber (PFloat NaN)) = True"
| "truthy (JStr s) = (s \<noteq> [])"
| "truthy (JArr xs) = (xs \<noteq> [])"
| "truthy (JObj d) = (d \<noteq> [])"

text \<open>\<^verbatim>\<open>d.get(k, default)\<close> on a dict \<open>d\<close> and a str literal \<open>k\<close>.\<close>

definition dict_get :: "pydict \<Rightarrow> string \<Rightarrow> json \<Rightarrow> json" where
  "dict_get d k dflt = (case map_of d k of None \<Rightarrow> dflt | Some v \<Rightarrow> v)"

text \<open>
  \<^verbatim>\<open>x.get(k, default)\<close> on a value \<open>x\<close> that came out of the event: only a dict has
  the attribute \<^verbatim>\<open>get\<close>; on \<^verbatim>\<open>None\<close>, a bool, a number, a str or a list the
  attribute lookup raises \<^verbatim>\<open>AttributeError\<close>.
\<close>

definition attr_get :: "json \<Rightarrow> string \<Rightarrow> json \<Rightarrow> py_error + json" where
  "attr_get x k dflt = (case x of JObj d \<Rightarrow> Inr (dict_get d k dflt) | _ \<Rightarrow> Inl AttributeError)"

text \<open>
  The numeric reading of a value in \<^verbatim>\<open>score += x * 30\<close>, where \<open>score\<close> is an int:
  a number is itself and a bool is the int 0 or 1. A str or a list times 30 is a longer str
  or list, which an int cannot be added to; \<^verbatim>\<open>None\<close> and a dict cannot be multiplied.
  Each of these raises \<^verbatim>\<open>TypeError\<close> in that statement.
\<close>

fun as_number :: "json \<Rightarrow> pynum option" where
  "as_number (JNumber n) = Some n"
| "as_number (JBool b) = Some (PInt (if b then 1 else 0))"
| "as_number JNull = None"
| "as_number (JStr s) = None"
| "as_number (JArr xs) = None"
| "as_number (JObj d) = None"

text \<open>The Lambda context object; the handlers read at most its request id.\<close>

record lambda_context =
  aws_request_id :: string


section \<open>tools/triage.py\<close>

text \<open>The dict that \<^verbatim>\<open>lambda_handler\<close> of triage.py returns.\<close>

record verdict =
  severity :: string
  score :: pynum
  requires_approval :: bool

text \<open>
  \<^verbatim>\<open>lambda_handler(event, context)\<close> of triage.py. The score starts at the int 0, the
  reputation branch adds the int 50 or 30, the confidence (the int 0 when the key is
  absent) is multiplied by 30 and added, in float arithmetic when it is a float, and the
  \<^verbatim>\<open>if\<close>/\<^verbatim>\<open>elif\<close> chain maps the score to the pair of severity and approval
  flag. The handler prints nothing and reads no clock.
\<close>

definition triage_lambda_handler :: "pydict \<Rightarrow> lambda_context \<Rightarrow> py_error + verdict" where
  "triage_lambda_handler event ctx =
    (let alert = dict_get event ''alert'' (JObj []);
         enrichment = dict_get event ''enrichment'' (JObj [])
     in case attr_get enrichment ''reputation'' JNull of
          Inl e \<Rightarrow> Inl e
        | Inr reputation \<Rightarrow>
            let score0 = (0::int);
                score1 = (if reputation = JStr ''malicious'' then score0 + 50
                          else if reputation = JStr ''suspicious'' then score0 + 30
                          else score0)
            in case attr_get enrichment ''confidence'' (JInt 0) of
                 Inl e \<Rightarrow> Inl e
               | Inr confidence \<Rightarrow>
                   (case as_number confidence of
                      None \<Rightarrow> Inl TypeError
                    | Some c \<Rightarrow>
                        let score2 = int_add_num score1 (num_mul_int c 30);
                            (sev, appr) =
                              (if num_ge score2 80 then (''CRITICAL'', True)
                               else if num_ge score2 60 then (''HIGH'', True)
                               else if num_ge score2 40 then (''MEDIUM'', False)
                               else (''LOW'', False))
                        in Inr \<lparr>severity = sev, score = score2, requires_approval = appr\<rparr>))"

text \<open>
  The scoring policy in the words of the specification, section 4.2: the score is 0, plus
  50 for a malicious reputation or else 30 for a suspicious one, plus thirty times the
  confidence; the severity is read off the thresholds 80, 60 and 40, highest first. The
  sum and the product are Python's.
\<close>

definition spec_score :: "json \<Rightarrow> pynum \<Rightarrow> pynum" where
  "spec_score reputation confidence =
     int_add_num
       (0 + (if reputation = JStr ''malicious'' then 50
             else if reputation = JStr ''suspicious'' then 30 else 0))
       (num_mul_int confidence 30)"

definition spec_severity :: "pynum \<Rightarrow> string" where
  "spec_severity s =
     (if num_ge s 80 then ''CRITICAL''
      else if num_ge s 60 then ''HIGH''
      else if num_ge s 40 then ''MEDIUM''
      else ''LOW'')"


section \<open>Values the handlers build, and the world they run in\<close>

text \<open>
  A handler's output is built from event values, lists, dicts and f-strings. An f-string
  is kept as the list of its pieces, literal text and interpolated values in order:
  \<open>Fmt\<close> stands for the str that Python's formatting of the pieces gives, and the
  rendering of a value by \<^verbatim>\<open>str()\<close> is not modelled. In the same way the body of a
  response is kept as the value that is handed to \<^verbatim>\<open>json.dumps\<close>.
\<close>

datatype pyval =
    Val json
  | Fmt "pyval list"
  | Lst "pyval list"
  | Dct "(string \<times> pyval) list"

text \<open>The calls a handler makes on the remote browser backend, in the order it makes them.\<close>

datatype backend_call =
    CreateBrowserSession
  | InvokeBrowserAction string pyval
  | GetBrowserSessionRecording string
  | DeleteBrowserSession string

text \<open>
  What a handler can observe or change outside its arguments: the clock reading that
  \<^verbatim>\<open>datetime.utcnow().isoformat()\<close> returns during the invocation, the lines printed
  to standard output, the lines given to the logger, and the calls made on the backend.
\<close>

record world =
  utcnow :: string
  stdout :: "pyval list"
  logged :: "pyval list"
  backend_calls :: "backend_call list"

text \<open>The dict with \<^verbatim>\<open>statusCode\<close> and \<^verbatim>\<open>body\<close> that a handler returns.\<close>

record response =
  statusCode :: nat
  body :: pyval

text \<open>
  \<^verbatim>\<open>d.get(key, default)\<close> on a dict literal \<open>d\<close> with str keys, where the key is a
  value out of the event: a list or a dict is unhashable and raises \<^verbatim>\<open>TypeError\<close>;
  \<^verbatim>\<open>None\<close>, a bool or a number is hashed and equals no str key.
\<close>

definition key_get :: "(string \<times> 'v) list \<Rightarrow> json \<Rightarrow> 'v \<Rightarrow> py_error + 'v" where
  "key_get d key dflt =
     (case key of
        JStr s \<Rightarrow> Inr (case map_of d s of None \<Rightarrow> dflt | Some v \<Rightarrow> v)
      | JArr xs \<Rightarrow> Inl TypeError
      | JObj kvs \<Rightarrow> Inl TypeError
      | _ \<Rightarrow> Inr dflt)"

text \<open>\<^verbatim>\<open>d[k]\<close> on a dict \<open>d\<close>: a missing key raises \<^verbatim>\<open>KeyError\<close>.\<close>

definition dict_item :: "pydict \<Rightarrow> string \<Rightarrow> py_error + json" where
  "dict_item d k = (case map_of d k of None \<Rightarrow> Inl KeyError | Some v \<Rightarrow> Inr v)"

text \<open>
  \<^verbatim>\<open>x[k]\<close> with a str \<open>k\<close> on a value out of the event: a dict is indexed by key;
  a str or a list wants an integer index and \<^verbatim>\<open>None\<close>, a bool or a number is not
  subscriptable, which all raise \<^verbatim>\<open>TypeError\<close>.
\<close>

definition py_subscript :: "json \<Rightarrow> string \<Rightarrow> py_error + json" where
  "py_subscript x k = (case x of JObj d \<Rightarrow> dict_item d k | _ \<Rightarrow> Inl TypeError)"


text \<open>
  Which values Python can hash, and so use as the key of a \<^verbatim>\<open>dict.get\<close>: all but a
  list and a dict. Every str is hashable.
\<close>

fun hashable :: "json \<Rightarrow> bool" where
  "hashable (JArr xs) = False"
| "hashable (JObj d) = False"
| "hashable JNull = True"
| "hashable (JBool b) = True"
| "hashable (JNumber n) = True"
| "hashable (JStr s) = True"


section \<open>tools/enrichment.py\<close>

text \<open>
  The mock threat intelligence table of the handler. A confidence literal such as
  \<^verbatim>\<open>0.65\<close> is the float nearest to that decimal.
\<close>

definition threat_data :: "(string \<times> (string \<times> pydict) list) list" where
  "threat_data =
     [(''ip'',
        [(''192.168.1.100'',
            [(''reputation'', JStr ''suspicious''),
             (''confidence'', JNumber (PFloat (py_float (65 / 100)))),
             (''category'', JStr ''C2_server'')]),
         (''10.0.0.50'',
            [(''reputation'', JStr ''malicious''),
             (''confidence'', JNumber (PFloat (py_float (92 / 100)))),
             (''category'', JStr ''malware_host'')])]),
      (''domain'',
        [(''malicious-site.com'',
            [(''reputation'', JStr ''malicious''),
             (''confidence'', JNumber (PFloat (py_float (98 / 100)))),
             (''category'', JStr ''phishing'')])]),
      (''hash'',
        [(''d41d8cd98f00b204e9800998ecf8427e'',
            [(''reputation'', JStr ''malicious''),
             (''confidence'', JNumber (PFloat (py_float (88 / 100)))),
             (''category'', JStr ''ransomware'')])])]"

text \<open>
  \<^verbatim>\<open>lambda_handler(event, context)\<close> of enrichment.py: print the event, answer 400
  on a falsy indicator, otherwise look the type and then the indicator up, each with its
  default, build the result, print it and answer 200.
\<close>

definition enrichment_lambda_handler ::
    "pydict \<Rightarrow> lambda_context \<Rightarrow> world \<Rightarrow> (py_error + response) \<times> world" where
  "enrichment_lambda_handler event ctx w =
    (let w1 = w\<lparr>stdout := stdout w @
                  [Fmt [Val (JStr ''Enrichment Lambda invoked with event: ''), Val (JObj event)]]\<rparr>;
         indicator = dict_get event ''indicator'' (JStr []);
         indicator_type = dict_get event ''type'' (JStr ''ip'')
     in if \<not> truthy indicator
        then (Inr \<lparr>statusCode = 400,
                   body = Dct [(''error'', Val (JStr ''No indicator provided''))]\<rparr>, w1)
        else
          case key_get threat_data indicator_type [] of
            Inl e \<Rightarrow> (Inl e, w1)
          | Inr lookup_dict \<Rightarrow>
          case key_get lookup_dict indicator
                 [(''reputation'', JStr ''unknown''),
                  (''confidence'', JNum 0),
                  (''category'', JStr ''unknown'')] of
            Inl e \<Rightarrow> (Inl e, w1)
          | Inr reputation_data \<Rightarrow>
          case dict_item reputation_data ''reputation'' of
            Inl e \<Rightarrow> (Inl e, w1)
          | Inr reputation \<Rightarrow>
          case dict_item reputation_data ''confidence'' of
            Inl e \<Rightarrow> (Inl e, w1)
          | Inr confidence \<Rightarrow>
          case dict_item reputation_data ''category'' of
            Inl e \<Rightarrow> (Inl e, w1)
          | Inr category \<Rightarrow>
              let result = Dct [(''indicator'', Val indicator),
                                (''type'', Val indicator_type),
                                (''reputation'', Val reputation),
                                (''confidence'', Val confidence),
                                (''category'', Val category),
                                (''sources'', Lst [Val (JStr ''Mock Threat Intel DB'')])];
                  w2 = w1\<lparr>stdout := stdout w1 @
                          [Fmt [Val (JStr ''Enrichment result: ''), result]]\<rparr>
              in (Inr \<lparr>statusCode = 200, body = result\<rparr>, w2))"


section \<open>tools/browser\_executor.py\<close>

text \<open>
  The three demo branches of the handler. Each one reads its parameters with
  \<^verbatim>\<open>params.get\<close> and builds the result dict; \<open>None\<close> is the final
  \<^verbatim>\<open>else\<close>, an action that is none of the three.
\<close>

definition simulate_action ::
    "json \<Rightarrow> json \<Rightarrow> lambda_context \<Rightarrow> world \<Rightarrow> py_error + pyval option" where
  "simulate_action action params ctx w =
    (if action = JStr ''quarantine'' then
       (case attr_get params ''target_ip'' (JStr ''unknown'') of
          Inl e \<Rightarrow> Inl e
        | Inr target_ip \<Rightarrow>
        case attr_get params ''reason'' (JStr ''Security alert'') of
          Inl e \<Rightarrow> Inl e
        | Inr reason \<Rightarrow>
            Inr (Some (Dct
              [(''success'', Val (JBool True)),
               (''action'', Val (JStr ''quarantine'')),
               (''target'', Val target_ip),
               (''reason'', Val reason),
               (''timestamp'', Val (JStr (utcnow w))),
               (''session_id'', Val (JStr (''demo-session-'' @ take 8 (aws_request_id ctx)))),
               (''recording_url'',
                  Val (JStr ''https://demo-recordings.s3.amazonaws.com/session-123.mp4'')),
               (''message'', Fmt [Val (JStr ''Demo: Successfully quarantined IP ''), Val target_ip]),
               (''audit_trail'', Lst
                  [Val (JStr ''Navigated to firewall console''),
                   Fmt [Val (JStr ''Added ''), Val target_ip, Val (JStr '' to blocklist'')],
                   Val (JStr ''Saved configuration''),
                   Val (JStr ''Verified IP is blocked'')])])))
     else if action = JStr ''isolate'' then
       (case attr_get params ''hostname'' (JStr ''unknown'') of
          Inl e \<Rightarrow> Inl e
        | Inr hostname \<Rightarrow>
            Inr (Some (Dct
              [(''success'', Val (JBool True)),
               (''action'', Val (JStr ''isolate'')),
               (''target'', Val hostname),
               (''timestamp'', Val (JStr (utcnow w))),
               (''message'', Fmt [Val (JStr ''Demo: Successfully isolated endpoint ''), Val hostname])])))
     else if action = JStr ''block_domain'' then
       (case attr_get params ''domain'' (JStr ''unknown'') of
          Inl e \<Rightarrow> Inl e
        | Inr domain \<Rightarrow>
            Inr (Some (Dct
              [(''success'', Val (JBool True)),
               (''action'', Val (JStr ''block_domain'')),
               (''target'', Val domain),
               (''timestamp'', Val (JStr (utcnow w))),
               (''message'', Fmt [Val (JStr ''Demo: Successfully blocked domain ''), Val domain])])))
     else Inr None)"

text \<open>
  \<^verbatim>\<open>lambda_handler(event, context)\<close> of browser\_executor.py: print the event, answer
  400 on a falsy action, run the branch of the action, answer 400 on an unknown action,
  otherwise print the result and answer 200. The handler reads nothing but the event, the
  request id and the clock, and keeps nothing between invocations.
\<close>

definition browser_executor_lambda_handler ::
    "pydict \<Rightarrow> lambda_context \<Rightarrow> world \<Rightarrow> (py_error + response) \<times> world" where
  "browser_executor_lambda_handler event ctx w =
    (let w1 = w\<lparr>stdout := stdout w @
                  [Fmt [Val (JStr ''Browser Executor Lambda invoked with event: ''),
                        Val (JObj event)]]\<rparr>;
         action = dict_get event ''action'' JNull;
         params = dict_get event ''parameters'' (JObj [])
     in if \<not> truthy action
        then (Inr \<lparr>statusCode = 400,
                   body = Dct [(''error'', Val (JStr ''No action specified''))]\<rparr>, w1)
        else
          case simulate_action action params ctx w1 of
            Inl e \<Rightarrow> (Inl e, w1)
          | Inr None \<Rightarrow>
              (Inr \<lparr>statusCode = 400,
                    body = Dct [(''error'',
                                 Fmt [Val (JStr ''Unknown action: ''), Val action])]\<rparr>, w1)
          | Inr (Some result) \<Rightarrow>
              (Inr \<lparr>statusCode = 200, body = result\<rparr>,
               w1\<lparr>stdout := stdout w1 @
                     [Fmt [Val (JStr ''Execution result: ''), result]]\<rparr>))"


section \<open>tools/nova\_executor.py\<close>

text \<open>
  The browser backend is a remote service. What it answers to each call of one invocation
  is given from outside: the session id of a created session, the response dicts of the
  action and of the recording, or in each case the exception the call raises. No answer
  is assumed.
\<close>

record backend =
  create_browser_session :: "py_error + string"
  invoke_browser_action :: "string \<Rightarrow> pyval \<Rightarrow> py_error + pydict"
  get_browser_session_recording :: "string \<Rightarrow> py_error + pydict"
  delete_browser_session :: "string \<Rightarrow> py_error + unit"

text \<open>\<^verbatim>\<open>SecurityActionExecutor\<close>: its only attribute is the session id, \<^verbatim>\<open>None\<close> at first.\<close>

record executor =
  session_id :: "string option"

text \<open>
  \<^verbatim>\<open>quarantine_host(self, target_ip, reason)\<close>: log, create a session and store its id,
  run the browser action in it, fetch the recording, return the result dict. A call that
  raises ends the method there, with the executor and the world as they are by then.
\<close>

definition quarantine_host ::
    "backend \<Rightarrow> executor \<Rightarrow> json \<Rightarrow> json \<Rightarrow> world \<Rightarrow> (py_error + pyval) \<times> executor \<times> world" where
  "quarantine_host b self target_ip reason w =
    (let w1 = w\<lparr>logged := logged w @
                  [Fmt [Val (JStr ''Quarantining ''), Val target_ip, Val (JStr '': ''), Val reason]]\<rparr>;
         w2 = w1\<lparr>backend_calls := backend_calls w1 @ [CreateBrowserSession]\<rparr>
     in case create_browser_session b of
          Inl e \<Rightarrow> (Inl e, self, w2)
        | Inr sid \<Rightarrow>
            let self1 = self\<lparr>session_id := Some sid\<rparr>;
                instruction = Fmt [Val (JStr (''Navigate to the firewall console,'' @ [CHR 0x0A]
                                              @ ''login, block IP '')),
                                   Val target_ip,
                                   Val (JStr '', save changes, confirm.'')];
                w3 = w2\<lparr>backend_calls := backend_calls w2 @ [InvokeBrowserAction sid instruction]\<rparr>
            in case invoke_browser_action b sid instruction of
                 Inl e \<Rightarrow> (Inl e, self1, w3)
               | Inr action_resp \<Rightarrow>
                   let w4 = w3\<lparr>backend_calls := backend_calls w3 @ [GetBrowserSessionRecording sid]\<rparr>
                   in case get_browser_session_recording b sid of
                        Inl e \<Rightarrow> (Inl e, self1, w4)
                      | Inr recording \<Rightarrow>
                          (Inr (Dct
                             [(''success'', Val (JBool True)),
                              (''target'', Val target_ip),
                              (''action'', Val (JStr ''quarantine'')),
                              (''session_id'', Val (JStr sid)),
                              (''recording_url'', Val (dict_get recording ''recordingUrl'' JNull)),
                              (''screenshot_url'', Val (dict_get action_resp ''screenshotUrl'' JNull)),
                              (''audit_trail'', Val (dict_get action_resp ''actionLog'' JNull))]),
                           self1, w4))"

text \<open>
  \<^verbatim>\<open>cleanup(self)\<close>: delete the session when the stored id is truthy, that is, when it
  is neither \<^verbatim>\<open>None\<close> nor the empty str.
\<close>

definition cleanup :: "backend \<Rightarrow> executor \<Rightarrow> world \<Rightarrow> (py_error + unit) \<times> world" where
  "cleanup b self w =
    (case session_id self of
       None \<Rightarrow> (Inr (), w)
     | Some sid \<Rightarrow>
         if sid \<noteq> []
         then (delete_browser_session b sid,
               w\<lparr>backend_calls := backend_calls w @ [DeleteBrowserSession sid]\<rparr>)
         else (Inr (), w))"

text \<open>
  The \<^verbatim>\<open>try\<close> block of the handler: read the action and the parameters, and on
  "quarantine" subscript the parameters for the two arguments, first the target and then
  the reason, and call the executor.
\<close>

definition nova_try_block ::
    "backend \<Rightarrow> executor \<Rightarrow> pydict \<Rightarrow> world \<Rightarrow> (py_error + pyval) \<times> executor \<times> world" where
  "nova_try_block b ex event w =
    (let action = dict_get event ''action'' JNull;
         params = dict_get event ''parameters'' (JObj [])
     in if action = JStr ''quarantine'' then
          (case py_subscript params ''target_ip'' of
             Inl e \<Rightarrow> (Inl e, ex, w)
           | Inr target_ip \<Rightarrow>
           case py_subscript params ''reason'' of
             Inl e \<Rightarrow> (Inl e, ex, w)
           | Inr reason \<Rightarrow> quarantine_host b ex target_ip reason w)
        else (Inr (Dct [(''error'', Val (JStr ''Unknown action''))]), ex, w))"

text \<open>
  \<^verbatim>\<open>lambda_handler(event, context)\<close> of nova\_executor.py: a fresh executor, the
  \<^verbatim>\<open>try\<close> block, and in \<^verbatim>\<open>finally\<close> the cleanup, which runs after a return and
  after a raise alike. An exception raised by the cleanup itself replaces the outcome of
  the block.
\<close>

definition nova_lambda_handler ::
    "backend \<Rightarrow> pydict \<Rightarrow> lambda_context \<Rightarrow> world \<Rightarrow> (py_error + pyval) \<times> world" where
  "nova_lambda_handler b event ctx w =
    (let ex = \<lparr>session_id = None\<rparr>;
         (r, ex1, w1) = nova_try_block b ex event w;
         (c, w2) = cleanup b ex1 w1
     in (case c of Inl e \<Rightarrow> Inl e | Inr u \<Rightarrow> r, w2))"


section \<open>agent/security\_agent.py\<close>

text \<open>
  \<^verbatim>\<open>request_quarantine_approval(target, severity, reason)\<close>, whose three arguments are
  annotated \<^verbatim>\<open>str\<close>: log the call, and for severity HIGH or CRITICAL log that the
  request was sent and return \<^verbatim>\<open>True\<close>; for every other severity return
  \<^verbatim>\<open>True\<close> as well. The function has no other argument and reads nothing else.
  (The argument \<^verbatim>\<open>severity\<close> is written \<open>sev\<close>, the name being taken by the
  field of the verdict.)
\<close>

definition request_quarantine_approval ::
    "string \<Rightarrow> string \<Rightarrow> string \<Rightarrow> world \<Rightarrow> bool \<times> world" where
  "request_quarantine_approval target sev reason w =
    (let w1 = w\<lparr>logged := logged w @
                  [Fmt [Val (JStr ''Tool called: request_quarantine_approval(''),
                        Val (JStr target), Val (JStr '', ''), Val (JStr sev),
                        Val (JStr '')'')]]\<rparr>
     in if sev \<in> set [''HIGH'', ''CRITICAL'']
        then (True, w1\<lparr>logged := logged w1 @
                         [Fmt [Val (JStr ''Approval request sent for ''), Val (JStr target)]]\<rparr>)
        else (True, w1))"


section \<open>Properties of float rounding\<close>

lemma round_half_even_le:
  assumes "y \<le> of_int N"
  shows "round_half_even y \<le> N"
proof -
  have f: "\<lfloor>y\<rfloor> \<le> N" using assms by (simp add: floor_le_iff)
  show ?thesis
  proof (cases "y - of_int \<lfloor>y\<rfloor> < 1 / 2")
    case True
    then show ?thesis using f by (simp add: round_half_even_def Let_def)
  next
    case False
    then have "of_int \<lfloor>y\<rfloor> < y" by simp
    with assms have "(of_int \<lfloor>y\<rfloor> :: rat) < of_int N" by simp
    then have "\<lfloor>y\<rfloor> < N" by simp
    then show ?thesis by (simp add: round_half_even_def Let_def)
  qed
qed

lemma round_half_even_nonneg:
  "0 \<le> y \<Longrightarrow> 0 \<le> round_half_even y"
  unfolding round_half_even_def Let_def
  by (auto split: if_splits)

lemma float_exponent_le:
  assumes "0 < a"
  shows "2 powi float_exponent a \<le> a"
proof -
  obtain p q where pq: "quotient_of a = (p, q)" by fastforce
  have q: "q > 0" using quotient_of_denom_pos [OF pq] .
  have a: "a = of_int p / of_int q" using quotient_of_div [OF pq] .
  have p: "p > 0" using assms a q by (simp add: zero_less_divide_iff)
  let ?e0 = "bitlen p - bitlen q"
  show ?thesis
  proof (cases "2 powi ?e0 \<le> a")
    case True
    then show ?thesis by (simp add: float_exponent_def pq)
  next
    case False
    then have e: "float_exponent a = ?e0 - 1" by (simp add: float_exponent_def pq)
    have bp: "2 ^ nat (bitlen p - 1) \<le> p" using bitlen_bounds [OF p] by simp
    have bq: "q < 2 ^ nat (bitlen q)" using bitlen_bounds [OF q] by simp
    have p1: "bitlen p \<ge> 1" using p by (simp add: bitlen_alt_def)
    have q1: "bitlen q \<ge> 0" by (rule bitlen_nonneg)
    have "?e0 - 1 = (bitlen p - 1) - bitlen q" by simp
    moreover have "(2::rat) powi ((bitlen p - 1) - bitlen q)
                     = 2 powi (bitlen p - 1) / 2 powi (bitlen q)"
      by (rule power_int_diff) simp
    ultimately have "(2::rat) powi (?e0 - 1) = 2 powi (bitlen p - 1) / 2 powi (bitlen q)"
      by (simp only:)
    also have "\<dots> = 2 ^ nat (bitlen p - 1) / 2 ^ nat (bitlen q)"
      using p1 q1 by (simp add: power_int_def)
    also have "\<dots> \<le> of_int p / of_int q"
    proof (rule frac_le)
      show "(0::rat) \<le> of_int p" using p by simp
      have "(of_int (2 ^ nat (bitlen p - 1)) :: rat) \<le> of_int p"
        using bp by (simp only: of_int_le_iff)
      then show "(2::rat) ^ nat (bitlen p - 1) \<le> of_int p" by simp
      show "(0::rat) < of_int q" using q by simp
      have "(of_int q :: rat) < of_int (2 ^ nat (bitlen q))"
        using bq by (simp only: of_int_less_iff)
      then show "(of_int q :: rat) \<le> 2 ^ nat (bitlen q)" by simp
    qed
    finally show ?thesis using e a by simp
  qed
qed

lemma float_exponent_gt:
  assumes "0 < a"
  shows "a < 2 powi (float_exponent a + 1)"
proof -
  obtain p q where pq: "quotient_of a = (p, q)" by fastforce
  have q: "q > 0" using quotient_of_denom_pos [OF pq] .
  have a: "a = of_int p / of_int q" using quotient_of_div [OF pq] .
  have p: "p > 0" using assms a q by (simp add: zero_less_divide_iff)
  let ?e0 = "bitlen p - bitlen q"
  show ?thesis
  proof (cases "2 powi ?e0 \<le> a")
    case False
    then have "float_exponent a = ?e0 - 1" by (simp add: float_exponent_def pq)
    with False show ?thesis by simp
  next
    case True
    then have e: "float_exponent a = ?e0" by (simp add: float_exponent_def pq)
    have bp: "p < 2 ^ nat (bitlen p)" using bitlen_bounds [OF p] by simp
    have bq: "2 ^ nat (bitlen q - 1) \<le> q" using bitlen_bounds [OF q] by simp
    have p1: "bitlen p \<ge> 0" by (rule bitlen_nonneg)
    have q1: "bitlen q \<ge> 1" using q by (simp add: bitlen_alt_def)
    have "of_int p / of_int q < (2::rat) ^ nat (bitlen p) / 2 ^ nat (bitlen q - 1)"
    proof (rule frac_less)
      show "(0::rat) \<le> of_int p" using p by simp
      have "(of_int p :: rat) < of_int (2 ^ nat (bitlen p))"
        using bp by (simp only: of_int_less_iff)
      then show "(of_int p :: rat) < 2 ^ nat (bitlen p)" by simp
      show "(0::rat) < 2 ^ nat (bitlen q - 1)" by simp
      have "(of_int (2 ^ nat (bitlen q - 1)) :: rat) \<le> of_int q"
        using bq by (simp only: of_int_le_iff)
      then show "(2::rat) ^ nat (bitlen q - 1) \<le> of_int q" by simp
    qed
    also have "\<dots> = 2 powi (bitlen p) / 2 powi (bitlen q - 1)"
      using p1 q1 by (simp add: power_int_def)
    also have "\<dots> = 2 powi (bitlen p - (bitlen q - 1))"
      by (rule power_int_diff [symmetric]) simp
    also have "bitlen p - (bitlen q - 1) = ?e0 + 1" by simp
    finally show ?thesis using e a by simp
  qed
qed

text \<open>
  Rounding does not pass 30: the float nearest to a number between 0 and 30 is finite and
  lies between 0 and 30 itself, since 30 is a multiple of the spacing of the doubles
  below it.
\<close>

lemma py_float_bounded:
  assumes "0 \<le> x" and "x \<le> 30"
  shows "\<exists>r. py_float x = Finite r \<and> 0 \<le> r \<and> r \<le> 30"
proof (cases "x = 0")
  case True
  then show ?thesis by (simp add: py_float_def)
next
  case False
  with assms have pos: "0 < x" by simp
  define e where "e = float_exponent x"
  define k where "k = max e (- 1022) - 52"
  define m where "m = round_half_even (x / 2 powi k)"
  have "2 powi e \<le> x" unfolding e_def using float_exponent_le [OF pos] .
  with assms(2) have lt: "(2::rat) powi e < 2 powi 5" by simp
  have "e < 5"
  proof (rule ccontr)
    assume "\<not> e < 5"
    then have "5 \<le> e" by simp
    then have "(2::rat) powi 5 \<le> 2 powi e" by (intro power_int_increasing) simp_all
    with lt show False by simp
  qed
  then have k: "k \<le> - 48" by (simp add: k_def)
  define n where "n = nat (- k)"
  have n: "k = - int n" using k by (simp add: n_def)
  have pk: "(2::rat) powi k = 1 / 2 ^ n" by (simp add: n power_int_minus field_simps)
  have "x / 2 powi k = x * 2 ^ n" by (simp add: pk)
  also have "\<dots> \<le> 30 * 2 ^ n" using assms(2) by simp
  also have "\<dots> = of_int (30 * 2 ^ n)" by simp
  finally have "m \<le> 30 * 2 ^ n"
    unfolding m_def by (rule round_half_even_le)
  then have "(of_int m :: rat) \<le> of_int (30 * 2 ^ n)"
    by (simp only: of_int_le_iff)
  then have r30: "of_int m * 2 powi k \<le> (30::rat)" by (simp add: pk field_simps)
  have "0 \<le> m"
    unfolding m_def using pos by (intro round_half_even_nonneg) (simp add: pk)
  then have r0: "(0::rat) \<le> of_int m * 2 powi k" by (simp add: pk)
  have "\<not> k > 971" and "k \<noteq> 971" using k by linarith+
  then have nov: "\<not> (k > 971 \<or> (k = 971 \<and> m > 2 ^ 53 - 1))" by blast
  have "py_float x = Finite (of_int m * 2 powi k)"
    using pos nov
    by (simp only: py_float_def Let_def e_def [symmetric] k_def [symmetric] m_def [symmetric]
          abs_of_pos [OF pos]) simp
  with r0 r30 show ?thesis by blast
qed

lemma num_ge_mono:
  assumes "num_ge s b" and "a \<le> b"
  shows "num_ge s a"
proof (cases s)
  case (PInt i)
  with assms show ?thesis by simp
next
  case (PFloat f)
  with assms show ?thesis by (cases f) auto
qed

lemma num_le_not_ge:
  assumes "num_le s a" and "a < b"
  shows "\<not> num_ge s b"
proof (cases s)
  case (PInt i)
  with assms show ?thesis by simp
next
  case (PFloat f)
  with assms show ?thesis by (cases f) auto
qed

text \<open>
  With nothing added for the reputation, a confidence between 0 and 1 gives a score of at
  most 30, in int and in float arithmetic.
\<close>

lemma score_of_unit_confidence:
  assumes "num_ge c 0" and "num_le c 1"
  shows "num_le (int_add_num 0 (num_mul_int c 30)) 30
         \<and> \<not> num_ge (int_add_num 0 (num_mul_int c 30)) 40"
proof (cases c)
  case (PInt i)
  with assms show ?thesis by simp
next
  case (PFloat f)
  show ?thesis
  proof (cases f)
    case (Finite r)
    with PFloat assms have r: "0 \<le> r" "r \<le> 1" by simp_all
    then have "0 \<le> r * 30" "r * 30 \<le> 30" by simp_all
    from py_float_bounded [OF this]
    obtain r1 where r1: "py_float (r * 30) = Finite r1" "0 \<le> r1" "r1 \<le> 30" by blast
    from py_float_bounded [OF r1(2,3)]
    obtain r2 where r2: "py_float r1 = Finite r2" "0 \<le> r2" "r2 \<le> 30" by blast
    have "int_add_num 0 (num_mul_int c 30) = PFloat (Finite r2)"
      using PFloat Finite r1(1) r2(1) by simp
    with r2 show ?thesis by simp
  qed (use PFloat assms in simp_all)
qed

text \<open>
  Rounding at work. The float nearest to 0.3333333333333333 times 30 is 10.0, so with 50
  added the score is exactly 60.0, although the exact product is below 10; and the float
  nearest to 0.57 times 30 is 17.099999999999998, below the exact 17.1.
\<close>

lemma float_rounds_up_to_60:
  "int_add_num 50 (num_mul_int (PFloat (py_float (3333333333333333 / 10000000000000000))) 30)
     = PFloat (Finite 60)"
  by code_simp

lemma float_rounds_below_exact:
  "int_add_num 0 (num_mul_int (PFloat (py_float (57 / 100))) 30)
     = PFloat (Finite (4813222101752217 / 281474976710656))"
  by code_simp


section \<open>Properties of the severity classifier\<close>

lemma triage_on_object:
  assumes "dict_get event ''enrichment'' (JObj []) = JObj enr"
    and "as_number (dict_get enr ''confidence'' (JInt 0)) = Some c"
  shows "triage_lambda_handler event ctx =
           Inr \<lparr>severity = spec_severity (spec_score (dict_get enr ''reputation'' JNull) c),
                score = spec_score (dict_get enr ''reputation'' JNull) c,
                requires_approval = num_ge (spec_score (dict_get enr ''reputation'' JNull) c) 60\<rparr>"
  using assms num_ge_mono [of _ 80 60]
  by (auto simp: triage_lambda_handler_def attr_get_def spec_score_def spec_severity_def Let_def)

lemma triage_malicious_092:
  "triage_lambda_handler
     [(''alert'', alert),
      (''enrichment'', JObj [(''reputation'', JStr ''malicious''),
                             (''confidence'', JNumber (PFloat (py_float (92 / 100))))])]
     ctx
   = Inr \<lparr>severity = ''HIGH'', score = PFloat (py_float (776 / 10)), requires_approval = True\<rparr>"
  by code_simp

lemma triage_suspicious_065:
  "triage_lambda_handler
     [(''alert'', alert),
      (''enrichment'', JObj [(''reputation'', JStr ''suspicious''),
                             (''confidence'', JNumber (PFloat (py_float (65 / 100))))])]
     ctx
   = Inr \<lparr>severity = ''MEDIUM'', score = PFloat (py_float (495 / 10)), requires_approval = False\<rparr>"
  by code_simp

text \<open>
  The handler rounds as Python does. With reputation "malicious" and confidence
  0.3333333333333333 the rounded product is 10.0 and the score exactly 60.0, which is
  HIGH; with confidence 0.57 and no flagged reputation the score is 17.099999999999998;
  and a NaN confidence fails every comparison, which is LOW.
\<close>

lemma triage_malicious_third:
  "triage_lambda_handler
     [(''alert'', alert),
      (''enrichment'', JObj [(''reputation'', JStr ''malicious''),
                             (''confidence'',
                                JNumber (PFloat (py_float (3333333333333333 / 10000000000000000))))])]
     ctx
   = Inr \<lparr>severity = ''HIGH'', score = PFloat (Finite 60), requires_approval = True\<rparr>"
  by code_simp

lemma triage_benign_057:
  "triage_lambda_handler
     [(''alert'', alert),
      (''enrichment'', JObj [(''reputation'', JStr ''benign''),
                             (''confidence'', JNumber (PFloat (py_float (57 / 100))))])]
     ctx
   = Inr \<lparr>severity = ''LOW'', score = PFloat (Finite (4813222101752217 / 281474976710656)),
          requires_approval = False\<rparr>"
  by code_simp

lemma triage_nan_confidence:
  "triage_lambda_handler
     [(''enrichment'', JObj [(''reputation'', JStr ''malicious''),
                             (''confidence'', JNumber (PFloat NaN))])]
     ctx
   = Inr \<lparr>severity = ''LOW'', score = PFloat NaN, requires_approval = False\<rparr>"
  by (simp add: triage_lambda_handler_def attr_get_def dict_get_def Let_def)

text \<open>
  Claim C3 says that the classifier computes the score and the severity for every alert
  and enrichment input. It does not for every input: below, the enrichment carries the
  confidence \<^verbatim>\<open>null\<close>, the product \<^verbatim>\<open>None * 30\<close> raises, and the handler returns
  neither a score nor a severity.
\<close>

theorem triage_null_confidence_counterexample:
  "triage_lambda_handler
     [(''alert'', JObj [(''alert_id'', JStr ''SEC-2025-001'')]),
      (''enrichment'', JObj [(''reputation'', JStr ''malicious''), (''confidence'', JNull)])]
     \<lparr>aws_request_id = ''req-0001''\<rparr>
   = Inl TypeError"
  by (simp add: triage_lambda_handler_def attr_get_def dict_get_def Let_def)

text \<open>
  Claim C3, amended. Whatever the alert is, on an enrichment that is a dict whose
  confidence is a number (or is absent, which reads as 0) the handler returns the score
  0 + (50 if the reputation is "malicious", else 30 if it is "suspicious") + confidence * 30,
  the product and the sum being Python's (exact on ints, rounded on floats), and the
  severity that the thresholds 80, 60, 40 give for that score. In particular reputation
  "malicious" with confidence 0.92 gives the score 77.6, severity HIGH and approval
  required, and reputation "suspicious" with confidence 0.65 gives the score 49.5,
  severity MEDIUM and no approval required; 0.92, 77.6, 0.65 and 49.5 are the floats
  nearest to these decimals.
\<close>

theorem triage_scoring_policy:
  "(dict_get event ''enrichment'' (JObj []) = JObj enr \<longrightarrow>
    as_number (dict_get enr ''confidence'' (JInt 0)) = Some c \<longrightarrow>
      (\<exists>v. triage_lambda_handler event ctx = Inr v
          \<and> score v = spec_score (dict_get enr ''reputation'' JNull) c
          \<and> severity v = spec_severity (score v)))
   \<and> triage_lambda_handler
        [(''alert'', alert),
         (''enrichment'', JObj [(''reputation'', JStr ''malicious''),
                                (''confidence'', JNumber (PFloat (py_float (92 / 100))))])]
        ctx
      = Inr \<lparr>severity = ''HIGH'', score = PFloat (py_float (776 / 10)), requires_approval = True\<rparr>
   \<and> triage_lambda_handler
        [(''alert'', alert),
         (''enrichment'', JObj [(''reputation'', JStr ''suspicious''),
                                (''confidence'', JNumber (PFloat (py_float (65 / 100))))])]
        ctx
      = Inr \<lparr>severity = ''MEDIUM'', score = PFloat (py_float (495 / 10)), requires_approval = False\<rparr>"
proof (intro conjI impI)
  assume "dict_get event ''enrichment'' (JObj []) = JObj enr"
    and "as_number (dict_get enr ''confidence'' (JInt 0)) = Some c"
  then show "\<exists>v. triage_lambda_handler event ctx = Inr v
          \<and> score v = spec_score (dict_get enr ''reputation'' JNull) c
          \<and> severity v = spec_severity (score v)"
    by (simp add: triage_on_object)
qed (rule triage_malicious_092, rule triage_suspicious_065)

theorem triage_scoring_policy_witness:
  "dict_get [(''enrichment'', JObj [(''reputation'', JStr ''malicious''), (''confidence'', JInt 1)])]
       ''enrichment'' (JObj [])
     = JObj [(''reputation'', JStr ''malicious''), (''confidence'', JInt 1)]
   \<and> as_number (dict_get [(''reputation'', JStr ''malicious''), (''confidence'', JInt 1)]
       ''confidence'' (JInt 0)) = Some (PInt 1)
   \<and> (\<exists>v. triage_lambda_handler
             [(''enrichment'', JObj [(''reputation'', JStr ''malicious''), (''confidence'', JInt 1)])]
             \<lparr>aws_request_id = ''r-1''\<rparr> = Inr v
          \<and> score v = PInt 80 \<and> severity v = ''CRITICAL'')"
proof -
  have h1: "dict_get [(''enrichment'', JObj [(''reputation'', JStr ''malicious''), (''confidence'', JInt 1)])]
       ''enrichment'' (JObj [])
     = JObj [(''reputation'', JStr ''malicious''), (''confidence'', JInt 1)]"
    by (simp add: dict_get_def)
  have h2: "as_number (dict_get [(''reputation'', JStr ''malicious''), (''confidence'', JInt 1)]
       ''confidence'' (JInt 0)) = Some (PInt 1)"
    by (simp add: dict_get_def)
  from triage_scoring_policy
    [of "[(''enrichment'', JObj [(''reputation'', JStr ''malicious''), (''confidence'', JInt 1)])]"
        "[(''reputation'', JStr ''malicious''), (''confidence'', JInt 1)]" "PInt 1"
        "\<lparr>aws_request_id = ''r-1''\<rparr>"] h1 h2
  obtain v where "triage_lambda_handler
             [(''enrichment'', JObj [(''reputation'', JStr ''malicious''), (''confidence'', JInt 1)])]
             \<lparr>aws_request_id = ''r-1''\<rparr> = Inr v"
      and "score v = spec_score (dict_get [(''reputation'', JStr ''malicious''), (''confidence'', JInt 1)]
                        ''reputation'' JNull) (PInt 1)"
      and "severity v = spec_severity (score v)"
    by blast
  then have "triage_lambda_handler
             [(''enrichment'', JObj [(''reputation'', JStr ''malicious''), (''confidence'', JInt 1)])]
             \<lparr>aws_request_id = ''r-1''\<rparr> = Inr v \<and> score v = PInt 80 \<and> severity v = ''CRITICAL''"
    by (simp add: dict_get_def spec_score_def spec_severity_def)
  with h1 h2 show ?thesis by blast
qed

text \<open>
  Claim C5. Whenever the handler returns a verdict, its approval flag is true if and only
  if its severity is HIGH or CRITICAL. (By \<open>triage_on_object\<close> the handler does return
  a verdict on every enrichment dict with a numeric or absent confidence.)
\<close>

theorem triage_approval_iff:
  "triage_lambda_handler event ctx = Inr v \<Longrightarrow>
   (requires_approval v \<longleftrightarrow> severity v = ''HIGH'' \<or> severity v = ''CRITICAL'')"
  by (auto simp: triage_lambda_handler_def Let_def split: sum.splits option.splits if_splits)

theorem triage_approval_iff_witness:
  "triage_lambda_handler
      [(''alert'', JNull),
       (''enrichment'', JObj [(''reputation'', JStr ''malicious''),
                              (''confidence'', JNumber (PFloat (py_float (92 / 100))))])]
      \<lparr>aws_request_id = ''req-0001''\<rparr>
     = Inr \<lparr>severity = ''HIGH'', score = PFloat (py_float (776 / 10)), requires_approval = True\<rparr>
   \<and> (requires_approval
          \<lparr>severity = ''HIGH'', score = PFloat (py_float (776 / 10)), requires_approval = True\<rparr>
        \<longleftrightarrow> severity
              \<lparr>severity = ''HIGH'', score = PFloat (py_float (776 / 10)), requires_approval = True\<rparr>
              = ''HIGH''
          \<or> severity
              \<lparr>severity = ''HIGH'', score = PFloat (py_float (776 / 10)), requires_approval = True\<rparr>
              = ''CRITICAL'')"
proof -
  have h: "triage_lambda_handler
      [(''alert'', JNull),
       (''enrichment'', JObj [(''reputation'', JStr ''malicious''),
                              (''confidence'', JNumber (PFloat (py_float (92 / 100))))])]
      \<lparr>aws_request_id = ''req-0001''\<rparr>
     = Inr \<lparr>severity = ''HIGH'', score = PFloat (py_float (776 / 10)), requires_approval = True\<rparr>"
    by (rule triage_malicious_092)
  from h triage_approval_iff [OF h] show ?thesis by blast
qed

text \<open>
  Claim C10. On an enrichment whose reputation is neither "malicious" nor "suspicious"
  (or is absent) and whose confidence lies between 0 and 1 (or is absent, which reads as
  0), the handler returns severity LOW with no approval required: the score is thirty
  times the confidence, computed and rounded as Python does, which is at most 30 and so
  below the lowest threshold 40.
\<close>

theorem triage_low_without_flagged_reputation:
  assumes "dict_get event ''enrichment'' (JObj []) = JObj enr"
    and "dict_get enr ''reputation'' JNull \<noteq> JStr ''malicious''"
    and "dict_get enr ''reputation'' JNull \<noteq> JStr ''suspicious''"
    and "as_number (dict_get enr ''confidence'' (JInt 0)) = Some c"
    and "num_ge c 0" and "num_le c 1"
  shows "\<exists>v. triage_lambda_handler event ctx = Inr v
           \<and> severity v = ''LOW'' \<and> requires_approval v = False
           \<and> score v = int_add_num 0 (num_mul_int c 30)
           \<and> num_le (score v) 30"
proof -
  from score_of_unit_confidence [OF assms(5,6)]
  have le: "num_le (int_add_num 0 (num_mul_int c 30)) 30"
    and n40: "\<not> num_ge (int_add_num 0 (num_mul_int c 30)) 40"
    by simp_all
  have n60: "\<not> num_ge (int_add_num 0 (num_mul_int c 30)) 60"
   and n80: "\<not> num_ge (int_add_num 0 (num_mul_int c 30)) 80"
    using le by (simp_all add: num_le_not_ge)
  show ?thesis
    using assms(1-4) le n40 n60 n80
    by (simp add: triage_lambda_handler_def attr_get_def Let_def)
qed

theorem triage_low_without_flagged_reputation_witness:
  "dict_get [(''enrichment'', JObj [(''reputation'', JStr ''benign''), (''confidence'', JNum (1 / 2))])]
      ''enrichment'' (JObj [])
     = JObj [(''reputation'', JStr ''benign''), (''confidence'', JNum (1 / 2))]
   \<and> dict_get [(''reputation'', JStr ''benign''), (''confidence'', JNum (1 / 2))] ''reputation'' JNull
       \<noteq> JStr ''malicious''
   \<and> dict_get [(''reputation'', JStr ''benign''), (''confidence'', JNum (1 / 2))] ''reputation'' JNull
       \<noteq> JStr ''suspicious''
   \<and> as_number (dict_get [(''reputation'', JStr ''benign''), (''confidence'', JNum (1 / 2))]
        ''confidence'' (JInt 0)) = Some (PFloat (Finite (1 / 2)))
   \<and> num_ge (PFloat (Finite (1 / 2))) 0 \<and> num_le (PFloat (Finite (1 / 2))) 1
   \<and> (\<exists>v. triage_lambda_handler
              [(''enrichment'', JObj [(''reputation'', JStr ''benign''), (''confidence'', JNum (1 / 2))])]
              \<lparr>aws_request_id = ''req-0001''\<rparr> = Inr v
           \<and> severity v = ''LOW'' \<and> requires_approval v = False \<and> num_le (score v) 30)"
  using triage_low_without_flagged_reputation
    [of "[(''enrichment'', JObj [(''reputation'', JStr ''benign''), (''confidence'', JNum (1 / 2))])]"
        "[(''reputation'', JStr ''benign''), (''confidence'', JNum (1 / 2))]" "PFloat (Finite (1 / 2))"
        "\<lparr>aws_request_id = ''req-0001''\<rparr>"]
  by (auto simp: dict_get_def)


section \<open>Properties of the enrichment lookup\<close>

text \<open>
  Claim C6. A lookup with a non-empty indicator whose pair of type and indicator is not in
  the threat intelligence table does not fail: the handler answers 200 with reputation
  "unknown", confidence 0.0 and category "unknown". The type is the event's, or "ip" when
  the event has none. Indicator and type are str in every call the repository makes (an IP
  address, a domain or a hash; "ip", "domain" or "hash"); the theorem covers every truthy
  indicator and every type that Python can hash.
\<close>

theorem enrichment_unknown_indicator:
  assumes "truthy (dict_get event ''indicator'' (JStr []))"
    and "hashable (dict_get event ''indicator'' (JStr []))"
    and "hashable (dict_get event ''type'' (JStr ''ip''))"
    and "(dict_get event ''type'' (JStr ''ip''), dict_get event ''indicator'' (JStr []))
           \<notin> {(JStr ''ip'', JStr ''192.168.1.100''), (JStr ''ip'', JStr ''10.0.0.50''),
               (JStr ''domain'', JStr ''malicious-site.com''),
               (JStr ''hash'', JStr ''d41d8cd98f00b204e9800998ecf8427e'')}"
  shows "fst (enrichment_lambda_handler event ctx w)
           = Inr \<lparr>statusCode = 200,
                  body = Dct [(''indicator'', Val (dict_get event ''indicator'' (JStr []))),
                              (''type'', Val (dict_get event ''type'' (JStr ''ip''))),
                              (''reputation'', Val (JStr ''unknown'')),
                              (''confidence'', Val (JNum 0)),
                              (''category'', Val (JStr ''unknown'')),
                              (''sources'', Lst [Val (JStr ''Mock Threat Intel DB'')])]\<rparr>"
proof -
  obtain ind where ind: "dict_get event ''indicator'' (JStr []) = ind" by simp
  obtain ty where ty: "dict_get event ''type'' (JStr ''ip'') = ty" by simp
  show ?thesis
    using assms unfolding ind ty
    by (cases ty; cases ind)
       (simp_all add: enrichment_lambda_handler_def key_get_def dict_item_def threat_data_def
          Let_def ind ty)
qed

theorem enrichment_unknown_indicator_witness:
  "truthy (dict_get [(''indicator'', JStr ''8.8.8.8''), (''type'', JStr ''ip'')] ''indicator'' (JStr []))
   \<and> hashable (dict_get [(''indicator'', JStr ''8.8.8.8''), (''type'', JStr ''ip'')] ''indicator'' (JStr []))
   \<and> hashable (dict_get [(''indicator'', JStr ''8.8.8.8''), (''type'', JStr ''ip'')] ''type'' (JStr ''ip''))
   \<and> (dict_get [(''indicator'', JStr ''8.8.8.8''), (''type'', JStr ''ip'')] ''type'' (JStr ''ip''),
       dict_get [(''indicator'', JStr ''8.8.8.8''), (''type'', JStr ''ip'')] ''indicator'' (JStr []))
           \<notin> {(JStr ''ip'', JStr ''192.168.1.100''), (JStr ''ip'', JStr ''10.0.0.50''),
               (JStr ''domain'', JStr ''malicious-site.com''),
               (JStr ''hash'', JStr ''d41d8cd98f00b204e9800998ecf8427e'')}
   \<and> fst (enrichment_lambda_handler [(''indicator'', JStr ''8.8.8.8''), (''type'', JStr ''ip'')]
             \<lparr>aws_request_id = ''req-0001''\<rparr>
             \<lparr>utcnow = ''2025-10-18T12:00:00'', stdout = [], logged = [], backend_calls = []\<rparr>)
       = Inr \<lparr>statusCode = 200,
              body = Dct [(''indicator'', Val (JStr ''8.8.8.8'')),
                          (''type'', Val (JStr ''ip'')),
                          (''reputation'', Val (JStr ''unknown'')),
                          (''confidence'', Val (JNum 0)),
                          (''category'', Val (JStr ''unknown'')),
                          (''sources'', Lst [Val (JStr ''Mock Threat Intel DB'')])]\<rparr>"
  using enrichment_unknown_indicator
     [of "[(''indicator'', JStr ''8.8.8.8''), (''type'', JStr ''ip'')]"
         "\<lparr>aws_request_id = ''req-0001''\<rparr>"
         "\<lparr>utcnow = ''2025-10-18T12:00:00'', stdout = [], logged = [], backend_calls = []\<rparr>"]
  by (simp add: dict_get_def)

text \<open>For comparison, an indicator that is in the table comes back with its stored record.\<close>

lemma enrichment_known_indicator:
  "fst (enrichment_lambda_handler [(''indicator'', JStr ''10.0.0.50'')] ctx w)
     = Inr \<lparr>statusCode = 200,
            body = Dct [(''indicator'', Val (JStr ''10.0.0.50'')),
                        (''type'', Val (JStr ''ip'')),
                        (''reputation'', Val (JStr ''malicious'')),
                        (''confidence'', Val (JNumber (PFloat (py_float (92 / 100))))),
                        (''category'', Val (JStr ''malware_host'')),
                        (''sources'', Lst [Val (JStr ''Mock Threat Intel DB'')])]\<rparr>"
  by (simp add: enrichment_lambda_handler_def key_get_def dict_item_def threat_data_def
        Let_def dict_get_def)


section \<open>Properties of the browser executor\<close>

lemma simulate_action_recognised:
  assumes "action \<in> {JStr ''quarantine'', JStr ''isolate'', JStr ''block_domain''}"
  shows "\<exists>result. simulate_action action (JObj params) ctx w = Inr (Some (Dct result))
           \<and> map_of result ''success'' = Some (Val (JBool True))
           \<and> map_of result ''target'' =
               Some (Val (dict_get params
                     (if action = JStr ''quarantine'' then ''target_ip''
                      else if action = JStr ''isolate'' then ''hostname'' else ''domain'')
                     (JStr ''unknown'')))"
  using assms by (auto simp: simulate_action_def attr_get_def)

lemma simulate_action_eq_iff:
  assumes "action \<in> {JStr ''quarantine'', JStr ''isolate'', JStr ''block_domain''}"
  shows "simulate_action action (JObj params) ctx1 w1 = simulate_action action (JObj params) ctx2 w2
          \<longleftrightarrow> utcnow w1 = utcnow w2
              \<and> (action = JStr ''quarantine''
                    \<longrightarrow> take 8 (aws_request_id ctx1) = take 8 (aws_request_id ctx2))"
  using assms by (auto simp: simulate_action_def attr_get_def)

lemma simulate_action_stdout:
  "simulate_action action params ctx (w\<lparr>stdout := out\<rparr>) = simulate_action action params ctx w"
  by (simp add: simulate_action_def split: sum.splits)

lemma browser_executor_on_recognised:
  assumes "dict_get event ''action'' JNull \<in> {JStr ''quarantine'', JStr ''isolate'', JStr ''block_domain''}"
    and "dict_get event ''parameters'' (JObj []) = JObj params"
    and "simulate_action (dict_get event ''action'' JNull) (JObj params) ctx w = Inr (Some result)"
  shows "browser_executor_lambda_handler event ctx w
           = (Inr \<lparr>statusCode = 200, body = result\<rparr>,
              w\<lparr>stdout := stdout w @
                   [Fmt [Val (JStr ''Browser Executor Lambda invoked with event: ''), Val (JObj event)],
                    Fmt [Val (JStr ''Execution result: ''), result]]\<rparr>)"
proof -
  have tr: "truthy (dict_get event ''action'' JNull)"
    using assms(1) by auto
  show ?thesis
    using tr assms(2,3)
    by (simp add: browser_executor_lambda_handler_def Let_def simulate_action_stdout)
qed

lemma browser_executor_ignores_actionId:
  "fst (browser_executor_lambda_handler ((''actionId'', a) # event) ctx w)
     = fst (browser_executor_lambda_handler event ctx w)"
  by (simp add: browser_executor_lambda_handler_def Let_def dict_get_def simulate_action_stdout
           split: sum.splits option.splits)

text \<open>
  Claim C9 says that a recognised action is answered with statusCode 200 and success true
  regardless of the parameters supplied. The handler reads the parameters with
  \<^verbatim>\<open>event.get("parameters", {})\<close>, whose default only covers a missing entry. Below
  the event carries \<^verbatim>\<open>"parameters": null\<close>: \<^verbatim>\<open>None\<close> has no \<^verbatim>\<open>get\<close>, the
  handler raises and returns no response.
\<close>

theorem browser_executor_null_parameters_counterexample:
  "fst (browser_executor_lambda_handler
          [(''action'', JStr ''quarantine''), (''parameters'', JNull)]
          \<lparr>aws_request_id = ''8c7a1f0e-0000-4000-8000-000000000001''\<rparr>
          \<lparr>utcnow = ''2025-10-18T12:00:00.000000'', stdout = [], logged = [], backend_calls = []\<rparr>)
     = Inl AttributeError"
  by (simp add: browser_executor_lambda_handler_def simulate_action_def attr_get_def
        dict_get_def Let_def)

text \<open>
  Claim C9, amended. For every event whose action is "quarantine", "isolate" or
  "block\_domain" and whose parameters are a dict or are absent, the handler answers
  statusCode 200 with success true, whatever entries the parameters dict holds: the target
  is the entry \<^verbatim>\<open>target_ip\<close>, \<^verbatim>\<open>hostname\<close> or \<^verbatim>\<open>domain\<close> of the
  parameters, and "unknown" when that entry is missing. No failed or partial outcome is
  returned for such an event.
\<close>

theorem browser_executor_recognised_action:
  assumes "dict_get event ''action'' JNull \<in> {JStr ''quarantine'', JStr ''isolate'', JStr ''block_domain''}"
    and "dict_get event ''parameters'' (JObj []) = JObj params"
  shows "\<exists>result. fst (browser_executor_lambda_handler event ctx w)
                     = Inr \<lparr>statusCode = 200, body = Dct result\<rparr>
           \<and> map_of result ''success'' = Some (Val (JBool True))
           \<and> map_of result ''target'' =
               Some (Val (dict_get params
                     (if dict_get event ''action'' JNull = JStr ''quarantine'' then ''target_ip''
                      else if dict_get event ''action'' JNull = JStr ''isolate'' then ''hostname''
                      else ''domain'')
                     (JStr ''unknown'')))"
proof -
  from simulate_action_recognised [OF assms(1), of params ctx w]
  obtain result where r: "simulate_action (dict_get event ''action'' JNull) (JObj params) ctx w
        = Inr (Some (Dct result))"
    and s: "map_of result ''success'' = Some (Val (JBool True))"
    and t: "map_of result ''target'' =
               Some (Val (dict_get params
                     (if dict_get event ''action'' JNull = JStr ''quarantine'' then ''target_ip''
                      else if dict_get event ''action'' JNull = JStr ''isolate'' then ''hostname''
                      else ''domain'')
                     (JStr ''unknown'')))"
    by blast
  have "fst (browser_executor_lambda_handler event ctx w) = Inr \<lparr>statusCode = 200, body = Dct result\<rparr>"
    by (simp add: browser_executor_on_recognised [OF assms r])
  with s t show ?thesis by blast
qed

theorem browser_executor_recognised_action_witness:
  "dict_get [(''action'', JStr ''isolate'')] ''action'' JNull
      \<in> {JStr ''quarantine'', JStr ''isolate'', JStr ''block_domain''}
   \<and> dict_get [(''action'', JStr ''isolate'')] ''parameters'' (JObj []) = JObj []
   \<and> (\<exists>result. fst (browser_executor_lambda_handler [(''action'', JStr ''isolate'')]
                       \<lparr>aws_request_id = ''req-0001''\<rparr>
                       \<lparr>utcnow = ''2025-10-18T12:00:00'', stdout = [], logged = [],
                        backend_calls = []\<rparr>)
                  = Inr \<lparr>statusCode = 200, body = Dct result\<rparr>
          \<and> map_of result ''success'' = Some (Val (JBool True))
          \<and> map_of result ''target'' = Some (Val (JStr ''unknown'')))"
proof -
  have h1: "dict_get [(''action'', JStr ''isolate'')] ''action'' JNull
      \<in> {JStr ''quarantine'', JStr ''isolate'', JStr ''block_domain''}"
    by (simp add: dict_get_def)
  have h2: "dict_get [(''action'', JStr ''isolate'')] ''parameters'' (JObj []) = JObj []"
    by (simp add: dict_get_def)
  from browser_executor_recognised_action [OF h1 h2,
      of "\<lparr>aws_request_id = ''req-0001''\<rparr>"
         "\<lparr>utcnow = ''2025-10-18T12:00:00'', stdout = [], logged = [], backend_calls = []\<rparr>"]
  have "\<exists>result. fst (browser_executor_lambda_handler [(''action'', JStr ''isolate'')]
                       \<lparr>aws_request_id = ''req-0001''\<rparr>
                       \<lparr>utcnow = ''2025-10-18T12:00:00'', stdout = [], logged = [],
                        backend_calls = []\<rparr>)
                  = Inr \<lparr>statusCode = 200, body = Dct result\<rparr>
          \<and> map_of result ''success'' = Some (Val (JBool True))
          \<and> map_of result ''target'' = Some (Val (JStr ''unknown''))"
    by (simp add: dict_get_def)
  with h1 h2 show ?thesis by blast
qed

text \<open>
  Claim C1 says that a second invocation with the same \<^verbatim>\<open>actionId\<close> returns the
  record of the first and does not execute again. The handler does not do that. Below, the
  same event, \<^verbatim>\<open>actionId\<close> included, is handled twice, the second time in the world
  the first invocation left, seven seconds later: the two responses differ.
\<close>

theorem browser_executor_same_actionId_counterexample:
  "fst (browser_executor_lambda_handler
          [(''actionId'', JStr ''act-0001''), (''action'', JStr ''isolate''),
           (''parameters'', JObj [(''hostname'', JStr ''web-01'')])]
          \<lparr>aws_request_id = ''8c7a1f0e-0000-4000-8000-000000000001''\<rparr>
          \<lparr>utcnow = ''2025-10-18T12:00:00.000000'', stdout = [], logged = [], backend_calls = []\<rparr>)
   \<noteq> fst (browser_executor_lambda_handler
          [(''actionId'', JStr ''act-0001''), (''action'', JStr ''isolate''),
           (''parameters'', JObj [(''hostname'', JStr ''web-01'')])]
          \<lparr>aws_request_id = ''8c7a1f0e-0000-4000-8000-000000000002''\<rparr>
          ((snd (browser_executor_lambda_handler
             [(''actionId'', JStr ''act-0001''), (''action'', JStr ''isolate''),
              (''parameters'', JObj [(''hostname'', JStr ''web-01'')])]
             \<lparr>aws_request_id = ''8c7a1f0e-0000-4000-8000-000000000001''\<rparr>
             \<lparr>utcnow = ''2025-10-18T12:00:00.000000'', stdout = [], logged = [], backend_calls = []\<rparr>))
           \<lparr>utcnow := ''2025-10-18T12:00:07.000000''\<rparr>))"
  by (simp add: browser_executor_lambda_handler_def simulate_action_def attr_get_def
        dict_get_def Let_def)

text \<open>
  Claim C1, amended. The handler keeps no record of an invocation and does not read
  \<^verbatim>\<open>actionId\<close>. For an event with a recognised action and a parameters dict, two
  invocations with the same event return the identical response if and only if they read
  the same clock value and, for "quarantine", their request ids agree in the first eight
  characters. Every such invocation simulates the action again: it answers 200 with a
  freshly built result and changes the world by two printed lines, the event and this
  result, and by nothing else. An \<^verbatim>\<open>actionId\<close> entry put in front of the event
  leaves the response as it is.
\<close>

theorem browser_executor_repeated_invocation:
  assumes "dict_get event ''action'' JNull \<in> {JStr ''quarantine'', JStr ''isolate'', JStr ''block_domain''}"
    and "dict_get event ''parameters'' (JObj []) = JObj params"
  shows "(fst (browser_executor_lambda_handler event ctx1 w1)
            = fst (browser_executor_lambda_handler event ctx2 w2)
          \<longleftrightarrow> utcnow w1 = utcnow w2
              \<and> (dict_get event ''action'' JNull = JStr ''quarantine''
                    \<longrightarrow> take 8 (aws_request_id ctx1) = take 8 (aws_request_id ctx2)))
       \<and> (\<exists>result. browser_executor_lambda_handler event ctx1 w1
             = (Inr \<lparr>statusCode = 200, body = result\<rparr>,
                w1\<lparr>stdout := stdout w1 @
                   [Fmt [Val (JStr ''Browser Executor Lambda invoked with event: ''), Val (JObj event)],
                    Fmt [Val (JStr ''Execution result: ''), result]]\<rparr>))
       \<and> fst (browser_executor_lambda_handler ((''actionId'', a) # event) ctx1 w1)
           = fst (browser_executor_lambda_handler event ctx1 w1)"
proof -
  let ?act = "dict_get event ''action'' JNull"
  obtain r1 where r1: "simulate_action ?act (JObj params) ctx1 w1 = Inr (Some r1)"
    using simulate_action_recognised [OF assms(1)] by blast
  obtain r2 where r2: "simulate_action ?act (JObj params) ctx2 w2 = Inr (Some r2)"
    using simulate_action_recognised [OF assms(1)] by blast
  note h1 = browser_executor_on_recognised [OF assms r1]
  note h2 = browser_executor_on_recognised [OF assms r2]
  have "r1 = r2 \<longleftrightarrow> utcnow w1 = utcnow w2
              \<and> (?act = JStr ''quarantine''
                    \<longrightarrow> take 8 (aws_request_id ctx1) = take 8 (aws_request_id ctx2))"
    using simulate_action_eq_iff [OF assms(1), of params ctx1 w1 ctx2 w2] r1 r2 by simp
  then have a: "fst (browser_executor_lambda_handler event ctx1 w1)
            = fst (browser_executor_lambda_handler event ctx2 w2)
          \<longleftrightarrow> utcnow w1 = utcnow w2
              \<and> (?act = JStr ''quarantine''
                    \<longrightarrow> take 8 (aws_request_id ctx1) = take 8 (aws_request_id ctx2))"
    by (simp add: h1 h2)
  from a h1 browser_executor_ignores_actionId show ?thesis by blast
qed

theorem browser_executor_repeated_invocation_witness:
  "dict_get [(''action'', JStr ''quarantine''), (''parameters'', JObj [(''target_ip'', JStr ''10.0.0.50'')])]
       ''action'' JNull
      \<in> {JStr ''quarantine'', JStr ''isolate'', JStr ''block_domain''}
   \<and> dict_get [(''action'', JStr ''quarantine''), (''parameters'', JObj [(''target_ip'', JStr ''10.0.0.50'')])]
       ''parameters'' (JObj [])
      = JObj [(''target_ip'', JStr ''10.0.0.50'')]
   \<and> fst (browser_executor_lambda_handler
            [(''action'', JStr ''quarantine''), (''parameters'', JObj [(''target_ip'', JStr ''10.0.0.50'')])]
            \<lparr>aws_request_id = ''8c7a1f0e-0001''\<rparr>
            \<lparr>utcnow = ''2025-10-18T12:00:00'', stdout = [], logged = [], backend_calls = []\<rparr>)
     \<noteq> fst (browser_executor_lambda_handler
            [(''action'', JStr ''quarantine''), (''parameters'', JObj [(''target_ip'', JStr ''10.0.0.50'')])]
            \<lparr>aws_request_id = ''8c7a1f0e-0001''\<rparr>
            \<lparr>utcnow = ''2025-10-18T12:00:07'', stdout = [], logged = [], backend_calls = []\<rparr>)
   \<and> fst (browser_executor_lambda_handler
            [(''action'', JStr ''quarantine''), (''parameters'', JObj [(''target_ip'', JStr ''10.0.0.50'')])]
            \<lparr>aws_request_id = ''8c7a1f0e-0001''\<rparr>
            \<lparr>utcnow = ''2025-10-18T12:00:00'', stdout = [], logged = [], backend_calls = []\<rparr>)
     = fst (browser_executor_lambda_handler
            [(''action'', JStr ''quarantine''), (''parameters'', JObj [(''target_ip'', JStr ''10.0.0.50'')])]
            \<lparr>aws_request_id = ''8c7a1f0e-0002''\<rparr>
            \<lparr>utcnow = ''2025-10-18T12:00:00'', stdout = [], logged = [], backend_calls = []\<rparr>)"
proof -
  let ?e = "[(''action'', JStr ''quarantine''), (''parameters'', JObj [(''target_ip'', JStr ''10.0.0.50'')])]"
  have h1: "dict_get ?e ''action'' JNull \<in> {JStr ''quarantine'', JStr ''isolate'', JStr ''block_domain''}"
    by (simp add: dict_get_def)
  have h2: "dict_get ?e ''parameters'' (JObj []) = JObj [(''target_ip'', JStr ''10.0.0.50'')]"
    by (simp add: dict_get_def)
  have a: "fst (browser_executor_lambda_handler ?e
            \<lparr>aws_request_id = ''8c7a1f0e-0001''\<rparr>
            \<lparr>utcnow = ''2025-10-18T12:00:00'', stdout = [], logged = [], backend_calls = []\<rparr>)
     \<noteq> fst (browser_executor_lambda_handler ?e
            \<lparr>aws_request_id = ''8c7a1f0e-0001''\<rparr>
            \<lparr>utcnow = ''2025-10-18T12:00:07'', stdout = [], logged = [], backend_calls = []\<rparr>)"
    using browser_executor_repeated_invocation [OF h1 h2,
        of "\<lparr>aws_request_id = ''8c7a1f0e-0001''\<rparr>"
           "\<lparr>utcnow = ''2025-10-18T12:00:00'', stdout = [], logged = [], backend_calls = []\<rparr>"
           "\<lparr>aws_request_id = ''8c7a1f0e-0001''\<rparr>"
           "\<lparr>utcnow = ''2025-10-18T12:00:07'', stdout = [], logged = [], backend_calls = []\<rparr>"]
    by simp
  have b: "fst (browser_executor_lambda_handler ?e
            \<lparr>aws_request_id = ''8c7a1f0e-0001''\<rparr>
            \<lparr>utcnow = ''2025-10-18T12:00:00'', stdout = [], logged = [], backend_calls = []\<rparr>)
     = fst (browser_executor_lambda_handler ?e
            \<lparr>aws_request_id = ''8c7a1f0e-0002''\<rparr>
            \<lparr>utcnow = ''2025-10-18T12:00:00'', stdout = [], logged = [], backend_calls = []\<rparr>)"
    using browser_executor_repeated_invocation [OF h1 h2,
        of "\<lparr>aws_request_id = ''8c7a1f0e-0001''\<rparr>"
           "\<lparr>utcnow = ''2025-10-18T12:00:00'', stdout = [], logged = [], backend_calls = []\<rparr>"
           "\<lparr>aws_request_id = ''8c7a1f0e-0002''\<rparr>"
           "\<lparr>utcnow = ''2025-10-18T12:00:00'', stdout = [], logged = [], backend_calls = []\<rparr>"]
    by simp
  from h1 h2 a b show ?thesis by blast
qed

section \<open>Properties of the session-based executor\<close>

lemma quarantine_host_calls:
  assumes "quarantine_host b ex target_ip reason w = (r, ex1, w1)"
  shows "\<exists>new. backend_calls w1 = backend_calls w @ new
     \<and> (\<forall>s. DeleteBrowserSession s \<notin> set new)
     \<and> CreateBrowserSession \<in> set new
     \<and> (case create_browser_session b of
           Inl e \<Rightarrow> session_id ex1 = session_id ex
         | Inr sid \<Rightarrow> session_id ex1 = Some sid)"
  using assms
  by (auto simp: quarantine_host_def Let_def split: sum.splits)

lemma nova_try_block_calls:
  assumes "nova_try_block b \<lparr>session_id = None\<rparr> event w = (r, ex1, w1)"
  shows "\<exists>new. backend_calls w1 = backend_calls w @ new
     \<and> (\<forall>s. DeleteBrowserSession s \<notin> set new)
     \<and> (session_id ex1 = None
          \<or> (\<exists>sid. session_id ex1 = Some sid \<and> CreateBrowserSession \<in> set new
                 \<and> create_browser_session b = Inr sid))
     \<and> (CreateBrowserSession \<in> set new \<longrightarrow>
           (\<forall>sid. create_browser_session b = Inr sid \<longrightarrow> session_id ex1 = Some sid))"
proof (cases "dict_get event ''action'' JNull = JStr ''quarantine''")
  case False
  with assms show ?thesis by (auto simp: nova_try_block_def Let_def)
next
  case True
  show ?thesis
  proof (cases "py_subscript (dict_get event ''parameters'' (JObj [])) ''target_ip''")
    case (Inl e)
    with True assms show ?thesis by (auto simp: nova_try_block_def Let_def)
  next
    case t: (Inr target_ip)
    show ?thesis
    proof (cases "py_subscript (dict_get event ''parameters'' (JObj [])) ''reason''")
      case (Inl e)
      with True t assms show ?thesis by (auto simp: nova_try_block_def Let_def)
    next
      case (Inr reason)
      have e: "quarantine_host b \<lparr>session_id = None\<rparr> target_ip reason w = (r, ex1, w1)"
        using True t Inr assms by (simp add: nova_try_block_def Let_def)
      from quarantine_host_calls [OF e]
      obtain new where n: "backend_calls w1 = backend_calls w @ new"
        and d: "\<forall>s. DeleteBrowserSession s \<notin> set new"
        and m: "CreateBrowserSession \<in> set new"
        and c: "(case create_browser_session b of
           Inl e \<Rightarrow> session_id ex1 = session_id \<lparr>session_id = None\<rparr>
         | Inr sid \<Rightarrow> session_id ex1 = Some sid)"
        by blast
      from c have c1: "session_id ex1 = None
          \<or> (\<exists>sid. session_id ex1 = Some sid \<and> create_browser_session b = Inr sid)"
        by (cases "create_browser_session b") simp_all
      from c have c2: "\<forall>sid. create_browser_session b = Inr sid \<longrightarrow> session_id ex1 = Some sid"
        by (auto split: sum.splits)
      from n d m c1 c2 show ?thesis by blast
    qed
  qed
qed

text \<open>
  Claim C7. The handler runs the cleanup on every way out of its \<^verbatim>\<open>try\<close> block, and
  the cleanup releases the session that the invocation acquired. Whatever the event is and
  whatever the backend answers, be it the response or an exception of any call: when the
  invocation created a session (the create call was made and answered with a session id,
  which is a non-empty str), the last call the handler makes on the backend is the deletion
  of that very session. That holds when the browser action raises and when fetching the
  recording raises as well as on the normal return. A deletion is made for no other
  session.
\<close>

theorem nova_session_released:
  "\<exists>new. backend_calls (snd (nova_lambda_handler b event ctx w)) = backend_calls w @ new
     \<and> (\<forall>sid. CreateBrowserSession \<in> set new \<longrightarrow> create_browser_session b = Inr sid \<longrightarrow> sid \<noteq> []
            \<longrightarrow> last new = DeleteBrowserSession sid)
     \<and> (\<forall>s. DeleteBrowserSession s \<in> set new
            \<longrightarrow> CreateBrowserSession \<in> set new \<and> create_browser_session b = Inr s)"
proof -
  obtain r ex1 w1 where tb: "nova_try_block b \<lparr>session_id = None\<rparr> event w = (r, ex1, w1)"
    by (metis prod_cases3)
  from nova_try_block_calls [OF tb]
  obtain new where n: "backend_calls w1 = backend_calls w @ new"
     and d: "\<forall>s. DeleteBrowserSession s \<notin> set new"
     and c: "session_id ex1 = None
          \<or> (\<exists>sid. session_id ex1 = Some sid \<and> CreateBrowserSession \<in> set new
                 \<and> create_browser_session b = Inr sid)"
     and m: "CreateBrowserSession \<in> set new \<longrightarrow>
           (\<forall>sid. create_browser_session b = Inr sid \<longrightarrow> session_id ex1 = Some sid)"
    by blast
  have h: "snd (nova_lambda_handler b event ctx w) = snd (cleanup b ex1 w1)"
    using tb by (simp add: nova_lambda_handler_def Let_def split: prod.splits)
  show ?thesis
  proof (cases "session_id ex1")
    case None
    then have "backend_calls (snd (cleanup b ex1 w1)) = backend_calls w @ new"
      using n by (simp add: cleanup_def)
    moreover have "\<forall>sid. CreateBrowserSession \<in> set new \<longrightarrow> create_browser_session b = Inr sid
            \<longrightarrow> sid \<noteq> [] \<longrightarrow> last new = DeleteBrowserSession sid"
      using m None by auto
    ultimately show ?thesis using d h by auto
  next
    case (Some sid)
    then have cr: "CreateBrowserSession \<in> set new" and cs: "create_browser_session b = Inr sid"
      using c by auto
    show ?thesis
    proof (cases "sid = []")
      case True
      then have "backend_calls (snd (cleanup b ex1 w1)) = backend_calls w @ new"
        using n Some by (simp add: cleanup_def)
      then show ?thesis using d h cs True by auto
    next
      case False
      then have "backend_calls (snd (cleanup b ex1 w1))
                   = backend_calls w @ (new @ [DeleteBrowserSession sid])"
        using n Some by (simp add: cleanup_def)
      then show ?thesis using d h cs cr
        by (intro exI [of _ "new @ [DeleteBrowserSession sid]"]) auto
    qed
  qed
qed

text \<open>
  The witness: the session is created, the browser action raises, and the handler exits
  with that exception after deleting the session.
\<close>

theorem nova_session_released_witness:
  "create_browser_session
      \<lparr>create_browser_session = Inr ''sess-42'',
       invoke_browser_action = (\<lambda>s i. Inl ClientError),
       get_browser_session_recording = (\<lambda>s. Inr []),
       delete_browser_session = (\<lambda>s. Inr ())\<rparr> = Inr ''sess-42''
   \<and> ''sess-42'' \<noteq> []
   \<and> fst (nova_lambda_handler
        \<lparr>create_browser_session = Inr ''sess-42'',
         invoke_browser_action = (\<lambda>s i. Inl ClientError),
         get_browser_session_recording = (\<lambda>s. Inr []),
         delete_browser_session = (\<lambda>s. Inr ())\<rparr>
        [(''action'', JStr ''quarantine''),
         (''parameters'', JObj [(''target_ip'', JStr ''10.0.0.50''), (''reason'', JStr ''malware'')])]
        \<lparr>aws_request_id = ''req-0001''\<rparr>
        \<lparr>utcnow = ''2025-10-18T12:00:00'', stdout = [], logged = [], backend_calls = []\<rparr>)
      = Inl ClientError
   \<and> CreateBrowserSession \<in> set (backend_calls (snd (nova_lambda_handler
        \<lparr>create_browser_session = Inr ''sess-42'',
         invoke_browser_action = (\<lambda>s i. Inl ClientError),
         get_browser_session_recording = (\<lambda>s. Inr []),
         delete_browser_session = (\<lambda>s. Inr ())\<rparr>
        [(''action'', JStr ''quarantine''),
         (''parameters'', JObj [(''target_ip'', JStr ''10.0.0.50''), (''reason'', JStr ''malware'')])]
        \<lparr>aws_request_id = ''req-0001''\<rparr>
        \<lparr>utcnow = ''2025-10-18T12:00:00'', stdout = [], logged = [], backend_calls = []\<rparr>)))
   \<and> last (backend_calls (snd (nova_lambda_handler
        \<lparr>create_browser_session = Inr ''sess-42'',
         invoke_browser_action = (\<lambda>s i. Inl ClientError),
         get_browser_session_recording = (\<lambda>s. Inr []),
         delete_browser_session = (\<lambda>s. Inr ())\<rparr>
        [(''action'', JStr ''quarantine''),
         (''parameters'', JObj [(''target_ip'', JStr ''10.0.0.50''), (''reason'', JStr ''malware'')])]
        \<lparr>aws_request_id = ''req-0001''\<rparr>
        \<lparr>utcnow = ''2025-10-18T12:00:00'', stdout = [], logged = [], backend_calls = []\<rparr>)))
      = DeleteBrowserSession ''sess-42''"
proof -
  let ?b = "\<lparr>create_browser_session = Inr ''sess-42'',
         invoke_browser_action = (\<lambda>s i. Inl ClientError),
         get_browser_session_recording = (\<lambda>s. Inr []),
         delete_browser_session = (\<lambda>s. Inr ())\<rparr>"
  let ?e = "[(''action'', JStr ''quarantine''),
         (''parameters'', JObj [(''target_ip'', JStr ''10.0.0.50''), (''reason'', JStr ''malware'')])]"
  let ?c = "\<lparr>aws_request_id = ''req-0001''\<rparr>"
  let ?w = "\<lparr>utcnow = ''2025-10-18T12:00:00'', stdout = [], logged = [], backend_calls = []\<rparr>"
  have cs: "create_browser_session ?b = Inr ''sess-42''" by simp
  have ne: "''sess-42'' \<noteq> []" by simp
  have res: "fst (nova_lambda_handler ?b ?e ?c ?w) = Inl ClientError"
    by (simp add: nova_lambda_handler_def nova_try_block_def quarantine_host_def cleanup_def
          py_subscript_def dict_item_def dict_get_def Let_def)
  have cr: "CreateBrowserSession \<in> set (backend_calls (snd (nova_lambda_handler ?b ?e ?c ?w)))"
    by (simp add: nova_lambda_handler_def nova_try_block_def quarantine_host_def cleanup_def
          py_subscript_def dict_item_def dict_get_def Let_def)
  from nova_session_released [of ?b ?e ?c ?w]
  obtain new where n: "backend_calls (snd (nova_lambda_handler ?b ?e ?c ?w)) = backend_calls ?w @ new"
    and l: "\<forall>sid. CreateBrowserSession \<in> set new \<longrightarrow> create_browser_session ?b = Inr sid
              \<longrightarrow> sid \<noteq> [] \<longrightarrow> last new = DeleteBrowserSession sid"
    by blast
  from n have eq: "new = backend_calls (snd (nova_lambda_handler ?b ?e ?c ?w))" by simp
  from cr eq have "CreateBrowserSession \<in> set new" by simp
  with l cs ne have "last new = DeleteBrowserSession ''sess-42''" by blast
  with eq have la: "last (backend_calls (snd (nova_lambda_handler ?b ?e ?c ?w)))
                      = DeleteBrowserSession ''sess-42''"
    by simp
  from cs ne res cr la show ?thesis by blast
qed


section \<open>Properties of the approval request\<close>

text \<open>
  Claim C2 says that an approval request on which no human decision arrives is treated as
  denied, so that remediation never goes ahead without an affirmative decision. The
  function that answers approval requests takes the target, the severity and the reason
  and nothing through which a decision or a timeout could reach it. Below it is asked
  about a HIGH severity target in a world in which nothing has happened: the answer is
  approval.
\<close>

theorem request_quarantine_approval_undecided_counterexample:
  "fst (request_quarantine_approval ''10.0.0.50'' ''HIGH'' ''malware_host''
         \<lparr>utcnow = ''2025-10-18T12:00:00.000000'', stdout = [], logged = [], backend_calls = []\<rparr>)
     \<noteq> False"
  by (simp add: request_quarantine_approval_def Let_def)

text \<open>
  Claim C2, amended. Every approval request is approved at once: for every target, every
  severity and every reason the function returns \<^verbatim>\<open>True\<close>. It waits for no decision
  and has no timeout, and the only thing it changes is the log, to which it adds the call
  and, for severity HIGH or CRITICAL, the line that the request was sent.
\<close>

theorem request_quarantine_approval_always_approves:
  "fst (request_quarantine_approval target sev reason w) = True
   \<and> snd (request_quarantine_approval target sev reason w)
       = w\<lparr>logged := logged w @
             Fmt [Val (JStr ''Tool called: request_quarantine_approval(''),
                  Val (JStr target), Val (JStr '', ''), Val (JStr sev), Val (JStr '')'')]
             # (if sev = ''HIGH'' \<or> sev = ''CRITICAL''
                then [Fmt [Val (JStr ''Approval request sent for ''), Val (JStr target)]]
                else [])\<rparr>"
  by (simp add: request_quarantine_approval_def Let_def)

end
